theory Spec2Isabelle
  imports Complex_Main "HOL-Library.Sublist"
begin

section \<open>Python strings\<close>

text \<open>
  A Python \<open>str\<close> is modelled as the \<open>string\<close> of its UTF-8 bytes. A character of the
  text is the bytes of one code point: a byte that is not a continuation byte, followed
  by its continuation bytes (the codes 128..191); \<open>chars\<close> cuts a text into its
  characters.
\<close>

type_synonym pychar = string

definition is_cont :: "char \<Rightarrow> bool" where
  "is_cont b = (128 \<le> (of_char b :: nat) \<and> (of_char b :: nat) < 192)"

function chars :: "string \<Rightarrow> pychar list" where
  "chars [] = []"
| "chars (b # bs) = (b # takeWhile is_cont bs) # chars (dropWhile is_cont bs)"
  by pat_completeness auto

termination chars
  by (relation "measure length") (auto simp: length_dropWhile_le less_Suc_eq_le)

declare chars.simps(2) [simp del]

text \<open>
  What Python reads from the Unicode character database is not fixed here: it is given
  by a record of tables, and everything below holds for whatever the tables say.
  \<^item> \<open>lower\<close> is \<open>str.lower\<close> on a whole text;
  \<^item> \<open>is_space\<close> is the whitespace that \<open>str.strip\<close> removes and that \<open>\s\<close> matches
    (one and the same set of characters in Python);
  \<^item> \<open>is_word\<close> is \<open>\w\<close>, which decides \<open>\b\<close>;
  \<^item> \<open>in_class\<close> is what the class \<open>[a-zA-Z ]\<close> matches under \<open>re.I\<close>;
  \<^item> \<open>letter_ci k c\<close> says that the letter \<open>k\<close> written in a pattern matches the
    character \<open>c\<close> under \<open>re.I\<close>.
\<close>

record tables =
  lower :: "string \<Rightarrow> string"
  is_space :: "pychar \<Rightarrow> bool"
  is_word :: "pychar \<Rightarrow> bool"
  in_class :: "pychar \<Rightarrow> bool"
  letter_ci :: "char \<Rightarrow> pychar \<Rightarrow> bool"

text \<open>\<open>s.strip()\<close>: the whitespace characters at both ends are removed.\<close>

definition strip_chars :: "tables \<Rightarrow> pychar list \<Rightarrow> pychar list" where
  "strip_chars t cs = rev (dropWhile (is_space t) (rev (dropWhile (is_space t) cs)))"

definition strip :: "tables \<Rightarrow> string \<Rightarrow> string" where
  "strip t s = concat (strip_chars t (chars s))"

text \<open>
  \<open>w in u\<close> on strings: \<open>w\<close> occurs in \<open>u\<close> as a contiguous run. (The words looked for
  are ASCII, and an ASCII byte is never part of a longer character.)
\<close>

fun py_in :: "string \<Rightarrow> string \<Rightarrow> bool" where
  "py_in w [] = (w = [])"
| "py_in w (c # cs) = (prefix w (c # cs) \<or> py_in w cs)"

text \<open>\<open>any(w in u for w in ws)\<close>\<close>

definition any_in :: "string list \<Rightarrow> string \<Rightarrow> bool" where
  "any_in ws u = list_ex (\<lambda>w. py_in w u) ws"

definition nl :: string where
  "nl = [CHR 0x0A]"

section \<open>Values\<close>

text \<open>
  A JSON value as Python holds it after \<open>json.loads\<close>; a \<open>dict\<close> is an association
  list read with \<open>map_of\<close>. A float is its real value (comparisons of Python numbers
  are exact); not-a-number and the infinities are left out.
\<close>

datatype json =
    JNull
  | JBool bool
  | JInt int
  | JFloat real
  | JStr string
  | JArr "json list"
  | JObj "(string \<times> json) list"

type_synonym pydict = "(string \<times> json) list"

section \<open>Exceptions\<close>

text \<open>
  An exception is its class and its message (\<open>str(e)\<close>). The classes are the ones the
  handlers of the program tell apart; \<open>OtherException\<close> is any other subclass of
  \<open>Exception\<close>. \<open>KeyboardInterrupt\<close> and \<open>CancelledError\<close> (what a cancelled task meets
  at its \<open>await\<close>) derive from \<open>BaseException\<close> only, so \<open>except Exception\<close> does not
  catch them. The messages of the interpreter's own errors (\<open>TypeError\<close>,
  \<open>AttributeError\<close>, \<open>IndexError\<close>) are shortened.
\<close>

datatype exn_class = KeyboardInterrupt | CancelledError | EOFError | TimeoutError | OtherException

datatype py_exn = Exn (cls: exn_class) (msg: string)

definition is_Exception :: "py_exn \<Rightarrow> bool" where
  "is_Exception e = (cls e \<noteq> KeyboardInterrupt \<and> cls e \<noteq> CancelledError)"

text \<open>What an attribute or method raises on an object that does not have it.\<close>

definition attribute_error :: py_exn where
  "attribute_error = Exn OtherException ''object has no attribute''"

section \<open>The two capture patterns of \<open>detect_tool\<close>\<close>

text \<open>
  Both patterns have one shape,
  \<^verbatim>\<open>\b(?:k1|k2|...)\s+([a-zA-Z ]+?)(?:t1|$|t2...)\<close> under \<open>re.I\<close>,
  and \<open>re.search\<close> is modelled for that shape by the backtracking search it performs,
  character by character: start positions from left to right; at a position a word
  boundary, then the keywords in their order, each letter compared without case; then
  the longest run of whitespace first, giving back one character at a time; then the
  group, which takes one character of the class and extends only while no terminator
  matches at the point reached. The result is group 1 of the first match found, as the
  list of its characters, or \<open>None\<close>.
\<close>

text \<open>
  The closing alternation at the rest \<open>s\<close> of the text: one of the literal characters
  \<open>terms\<close>, or \<open>$\<close>, which holds at the end of the text and before a final newline.
\<close>

definition term_here :: "string \<Rightarrow> pychar list \<Rightarrow> bool" where
  "term_here terms s =
     (case s of
        [] \<Rightarrow> True
      | c # cs \<Rightarrow> c \<in> set (map (\<lambda>x. [x]) terms) \<or> (c = nl \<and> cs = []))"

text \<open>The lazy group after its first character: \<open>acc\<close> is what it has taken so far.\<close>

fun lazy_more :: "tables \<Rightarrow> string \<Rightarrow> pychar list \<Rightarrow> pychar list \<Rightarrow> pychar list option" where
  "lazy_more t terms acc [] = (if term_here terms [] then Some acc else None)"
| "lazy_more t terms acc (c # cs) =
     (if term_here terms (c # cs) then Some acc
      else if in_class t c then lazy_more t terms (acc @ [c]) cs
      else None)"

definition lazy_group :: "tables \<Rightarrow> string \<Rightarrow> pychar list \<Rightarrow> pychar list option" where
  "lazy_group t terms s =
     (case s of [] \<Rightarrow> None | c # cs \<Rightarrow> if in_class t c then lazy_more t terms [c] cs else None)"

text \<open>\<open>\s+\<close> taking \<open>j\<close> characters, \<open>j\<close> from the longest run down to one.\<close>

fun try_ws :: "tables \<Rightarrow> string \<Rightarrow> nat \<Rightarrow> pychar list \<Rightarrow> pychar list option" where
  "try_ws t terms 0 rest = None"
| "try_ws t terms (Suc j) rest =
     (case lazy_group t terms (drop (Suc j) rest) of
        Some g \<Rightarrow> Some g
      | None \<Rightarrow> try_ws t terms j rest)"

definition after_kw :: "tables \<Rightarrow> string \<Rightarrow> pychar list \<Rightarrow> pychar list option" where
  "after_kw t terms rest = try_ws t terms (length (takeWhile (is_space t) rest)) rest"

text \<open>A keyword at the start of \<open>s\<close>, letter by letter; the result is what follows it.\<close>

fun kw_match :: "tables \<Rightarrow> string \<Rightarrow> pychar list \<Rightarrow> pychar list option" where
  "kw_match t [] s = Some s"
| "kw_match t (k # ks) [] = None"
| "kw_match t (k # ks) (c # cs) = (if letter_ci t k c then kw_match t ks cs else None)"

text \<open>The keyword alternation at the text \<open>s\<close>, in the order written.\<close>

fun try_kws :: "tables \<Rightarrow> string list \<Rightarrow> string \<Rightarrow> pychar list \<Rightarrow> pychar list option" where
  "try_kws t [] terms s = None"
| "try_kws t (kw # kws) terms s =
     (case (case kw_match t kw s of Some rest \<Rightarrow> after_kw t terms rest | None \<Rightarrow> None) of
        Some g \<Rightarrow> Some g
      | None \<Rightarrow> try_kws t kws terms s)"

text \<open>\<open>\b\<close> between the character before (if any) and the text that follows.\<close>

definition word_boundary :: "tables \<Rightarrow> pychar option \<Rightarrow> pychar list \<Rightarrow> bool" where
  "word_boundary t prev s =
     ((case prev of None \<Rightarrow> False | Some p \<Rightarrow> is_word t p)
      \<noteq> (case s of [] \<Rightarrow> False | c # cs \<Rightarrow> is_word t c))"

definition match_here :: "tables \<Rightarrow> string list \<Rightarrow> string \<Rightarrow> pychar option \<Rightarrow> pychar list \<Rightarrow> pychar list option" where
  "match_here t kws terms prev s = (if word_boundary t prev s then try_kws t kws terms s else None)"

fun re_search :: "tables \<Rightarrow> string list \<Rightarrow> string \<Rightarrow> pychar option \<Rightarrow> pychar list \<Rightarrow> pychar list option" where
  "re_search t kws terms prev [] = match_here t kws terms prev []"
| "re_search t kws terms prev (c # cs) =
     (case match_here t kws terms prev (c # cs) of
        Some g \<Rightarrow> Some g
      | None \<Rightarrow> re_search t kws terms (Some c) cs)"

text \<open>\<open>m.group(1)\<close>: on \<open>None\<close>, which is what a failed search returns, it raises.\<close>

definition group1 :: "pychar list option \<Rightarrow> py_exn + string" where
  "group1 m = (case m of None \<Rightarrow> Inl attribute_error | Some g \<Rightarrow> Inr (concat g))"

section \<open>\<open>detect_tool\<close>\<close>

text \<open>
  The dictionary \<open>detect_tool\<close> returns has the key \<open>tool\<close> and one of the keys
  \<open>city\<close> and \<open>args\<close>: a record with the two optional. The result of the function is
  that dictionary, or \<open>None\<close>, or an exception.
\<close>

record decision =
  tool :: string
  city :: "string option"
  args :: "pydict option"

definition weather_words :: "string list" where
  "weather_words = [''weather'', ''temperature'', ''forecast'']"

definition trivia_words :: "string list" where
  "trivia_words = [''trivia'', ''quiz'', ''question'', ''test me'', ''challenge'']"

definition joke_words :: "string list" where
  "joke_words = [''joke'', ''funny'', ''laugh'', ''humor'', ''humour'']"

definition dog_words :: "string list" where
  "dog_words = [''dog'', ''puppy'', ''doggo'', ''pup'', ''woof'']"

definition book_words :: "string list" where
  "book_words = [''book'', ''read'', ''novel'', ''recommend'', ''fiction'', ''story'']"

text \<open>Lines 19-20: the search for the city and \<open>m.group(1).strip() if m else None\<close>.\<close>

definition weather_city :: "tables \<Rightarrow> string \<Rightarrow> py_exn + string option" where
  "weather_city t user =
     (let m = re_search t [''in'', ''at'', ''for''] ''?.'' None (chars user) in
      if m \<noteq> None then
        (case group1 m of Inl e \<Rightarrow> Inl e | Inr g \<Rightarrow> Inr (Some (strip t g)))
      else Inr None)"

text \<open>Lines 34-35: the search for the topic and \<open>m.group(1).strip() if m else "fiction"\<close>.\<close>

definition book_topic :: "tables \<Rightarrow> string \<Rightarrow> py_exn + string" where
  "book_topic t user =
     (let m = re_search t [''about'', ''on'', ''topic'', ''genre'', ''like''] ''?.,'' None (chars user) in
      if m \<noteq> None then
        (case group1 m of Inl e \<Rightarrow> Inl e | Inr g \<Rightarrow> Inr (strip t g))
      else Inr ''fiction'')"

definition direct :: "string \<Rightarrow> pydict \<Rightarrow> decision" where
  "direct name a = \<lparr>tool = name, city = None, args = Some a\<rparr>"

text \<open>Lines 24-38, reached when the weather branch has not returned.\<close>

definition detect_rest :: "tables \<Rightarrow> string \<Rightarrow> string \<Rightarrow> py_exn + decision option" where
  "detect_rest t user u =
     (if any_in trivia_words u then Inr (Some (direct ''trivia'' []))
      else if any_in joke_words u then Inr (Some (direct ''random_joke'' []))
      else if any_in dog_words u then Inr (Some (direct ''random_dog'' []))
      else if any_in book_words u then
        (case book_topic t user of
           Inl e \<Rightarrow> Inl e
         | Inr topic \<Rightarrow>
             Inr (Some (direct ''book_recs'' [(''topic'', JStr topic), (''limit'', JInt 3)])))
      else Inr None)"

definition detect_tool :: "tables \<Rightarrow> string \<Rightarrow> py_exn + decision option" where
  "detect_tool t user =
     (let u = lower t user in
      if any_in weather_words u then
        (case weather_city t user of
           Inl e \<Rightarrow> Inl e
         | Inr found \<Rightarrow>
             (case found of
                Some c \<Rightarrow>
                  if c \<noteq> [] then
                    Inr (Some \<lparr>tool = ''weather_pipeline'', city = Some c, args = None\<rparr>)
                  else detect_rest t user u
              | None \<Rightarrow> detect_rest t user u))
      else detect_rest t user u)"

section \<open>\<open>call_tool\<close>\<close>

text \<open>
  What awaiting \<open>session.call_tool(name, args)\<close> does is given by the session: the
  time the call takes and, if it is left to complete, the result it returns or the
  exception it raises. A result has its content blocks and its \<open>model_dump_json()\<close>
  rendering; a block either has a string \<open>text\<close> or is rendered by \<open>str(b)\<close>, and the
  two renderings are library calls that may raise.
  \<open>asyncio.wait_for(aw, timeout)\<close> raises \<open>TimeoutError\<close> when the call takes longer than
  the bound and otherwise gives what the call gives.
\<close>

datatype block = TextBlock string | OtherBlock "py_exn + string"

record call_result =
  content :: "block list"
  model_dump_json :: "py_exn + string"

record remote =
  duration :: real
  outcome :: "py_exn + call_result"

text \<open>
  The session answers a call knowing the calls made before it, so that two calls
  with the same name and arguments may be answered differently.
\<close>

type_synonym session = "(string \<times> pydict) list \<Rightarrow> string \<Rightarrow> pydict \<Rightarrow> remote"

definition wait_for :: "remote \<Rightarrow> real \<Rightarrow> py_exn + call_result" where
  "wait_for r timeout = (if duration r > timeout then Inl (Exn TimeoutError []) else outcome r)"

text \<open>\<open>b.text if hasattr(b, "text") and isinstance(b.text, str) else str(b)\<close> over the blocks.\<close>

fun block_texts :: "block list \<Rightarrow> py_exn + string list" where
  "block_texts [] = Inr []"
| "block_texts (TextBlock t # bs) =
     (case block_texts bs of Inl e \<Rightarrow> Inl e | Inr ts \<Rightarrow> Inr (t # ts))"
| "block_texts (OtherBlock (Inl e) # bs) = Inl e"
| "block_texts (OtherBlock (Inr t) # bs) =
     (case block_texts bs of Inl e \<Rightarrow> Inl e | Inr ts \<Rightarrow> Inr (t # ts))"

text \<open>\<open>sep.join(ts)\<close>\<close>

fun join :: "string \<Rightarrow> string list \<Rightarrow> string" where
  "join sep [] = []"
| "join sep [t] = t"
| "join sep (t # t' # ts) = t @ sep @ join sep (t' # ts)"

text \<open>Lines 43-49, the body of the \<open>try\<close>.\<close>

definition call_tool_try :: "remote \<Rightarrow> py_exn + string" where
  "call_tool_try r =
     (case wait_for r 20 of
        Inl e \<Rightarrow> Inl e
      | Inr result \<Rightarrow>
          if content result \<noteq> [] then
            (case block_texts (content result) of
               Inl e \<Rightarrow> Inl e
             | Inr ts \<Rightarrow> Inr (join nl ts))
          else model_dump_json result)"

text \<open>Lines 50-53, the two handlers in their order.\<close>

definition call_tool_of :: "string \<Rightarrow> remote \<Rightarrow> py_exn + string" where
  "call_tool_of name r =
     (case call_tool_try r of
        Inr s \<Rightarrow> Inr s
      | Inl e \<Rightarrow>
          if cls e = TimeoutError then Inr (''[Error: '' @ [CHR 0x27] @ name @ [CHR 0x27] @ '' timed out]'')
          else if is_Exception e then Inr (''[Error: '' @ msg e @ '']'')
          else Inl e)"

section \<open>The state of the loop and the world around it\<close>

datatype role = System | User | Assistant

record message =
  role :: role
  content_of :: string

text \<open>
  \<open>history\<close> is the local list of \<open>agent_loop\<close>, \<open>stdout\<close> the strings written to
  standard output in order, \<open>calls\<close> the tool invocations issued on the session so far.
\<close>

record state =
  history :: "message list"
  stdout :: "string list"
  calls :: "(string \<times> pydict) list"

text \<open>
  What the program takes from outside: \<open>chat\<close> gives the content field of the model's
  reply (possibly \<open>None\<close>) or raises; \<open>json_loads\<close> gives the parsed value or raises;
  \<open>tables\<close> are the character tables of the interpreter.
\<close>

record env =
  chat :: "message list \<Rightarrow> py_exn + string option"
  json_loads :: "string \<Rightarrow> py_exn + json"
  tables :: tables

definition call_tool :: "session \<Rightarrow> string \<Rightarrow> pydict \<Rightarrow> state \<Rightarrow> (py_exn + string) \<times> state" where
  "call_tool session name a st =
     (call_tool_of name (session (calls st) name a), st\<lparr>calls := calls st @ [(name, a)]\<rparr>)"

definition ask_llm :: "env \<Rightarrow> message list \<Rightarrow> py_exn + string" where
  "ask_llm ev messages =
     (case chat ev messages of
        Inl e \<Rightarrow> Inl e
      | Inr c \<Rightarrow> Inr (strip (tables ev) (case c of None \<Rightarrow> [] | Some s \<Rightarrow> s)))"

section \<open>The weather pipeline\<close>

text \<open>Truth value of a Python object that came from JSON.\<close>

fun truthy :: "json \<Rightarrow> bool" where
  "truthy JNull = False"
| "truthy (JBool b) = b"
| "truthy (JInt n) = (n \<noteq> 0)"
| "truthy (JFloat x) = (x \<noteq> 0)"
| "truthy (JStr s) = (s \<noteq> [])"
| "truthy (JArr xs) = (xs \<noteq> [])"
| "truthy (JObj kv) = (kv \<noteq> [])"

text \<open>\<open>d.get(k)\<close> and \<open>d.get(k, default)\<close>: only a \<open>dict\<close> has the method.\<close>

fun py_get :: "json \<Rightarrow> string \<Rightarrow> json \<Rightarrow> py_exn + json" where
  "py_get (JObj kv) k d = Inr (case map_of kv k of None \<Rightarrow> d | Some v \<Rightarrow> v)"
| "py_get j k d = Inl attribute_error"

text \<open>Lines 103-104: \<open>except Exception: tool_result = raw\<close>.\<close>

definition on_exception :: "py_exn \<Rightarrow> string \<Rightarrow> state \<Rightarrow> (py_exn + string) \<times> state" where
  "on_exception e raw st = (if is_Exception e then (Inr raw, st) else (Inl e, st))"

text \<open>Lines 92-104.\<close>

definition weather_pipeline :: "env \<Rightarrow> session \<Rightarrow> string \<Rightarrow> state \<Rightarrow> (py_exn + string) \<times> state" where
  "weather_pipeline ev session c st =
     (case call_tool session ''city_to_coords'' [(''city'', JStr c)] st of
        (Inl e, st1) \<Rightarrow> (Inl e, st1)
      | (Inr raw, st1) \<Rightarrow>
          (case json_loads ev raw of
             Inl e \<Rightarrow> on_exception e raw st1
           | Inr coords \<Rightarrow>
               (case py_get coords ''latitude'' JNull of
                  Inl e \<Rightarrow> on_exception e raw st1
                | Inr lat \<Rightarrow>
                    (case py_get coords ''longitude'' JNull of
                       Inl e \<Rightarrow> on_exception e raw st1
                     | Inr lon \<Rightarrow>
                         if truthy lat \<and> truthy lon then
                           (case call_tool session ''weather_summary''
                                   [(''latitude'', lat), (''longitude'', lon)] st1 of
                              (Inl e, st2) \<Rightarrow> on_exception e raw st2
                            | (Inr weather, st2) \<Rightarrow>
                                (Inr (''Weather for '' @ c @ '':'' @ nl @ weather), st2))
                         else (Inr (''Could not find city '' @ [CHR 0x27] @ c @ [CHR 0x27] @ ''.''), st1)))))"

section \<open>One turn\<close>

text \<open>\<open>KeyError(k)\<close>, whose message is the key in quotes.\<close>

definition key_error :: "string \<Rightarrow> py_exn" where
  "key_error k = Exn OtherException ([CHR 0x27] @ k @ [CHR 0x27])"

text \<open>Lines 87-107: \<open>tool_result\<close> after the dispatch, \<open>None\<close> when no tool was chosen.\<close>

definition run_tools :: "env \<Rightarrow> session \<Rightarrow> decision option \<Rightarrow> state \<Rightarrow> (py_exn + string option) \<times> state" where
  "run_tools ev session dec st =
     (case dec of
        None \<Rightarrow> (Inr None, st)
      | Some d \<Rightarrow>
          if tool d = ''weather_pipeline'' then
            (case city d of
               None \<Rightarrow> (Inl (key_error ''city''), st)
             | Some c \<Rightarrow>
                 (case weather_pipeline ev session c st of
                    (Inl e, st1) \<Rightarrow> (Inl e, st1)
                  | (Inr t, st1) \<Rightarrow> (Inr (Some t), st1)))
          else
            (case call_tool session (tool d) (case args d of None \<Rightarrow> [] | Some a \<Rightarrow> a) st of
               (Inl e, st1) \<Rightarrow> (Inl e, st1)
             | (Inr t, st1) \<Rightarrow> (Inr (Some t), st1)))"

text \<open>Lines 109-116.\<close>

definition grounding :: "string \<Rightarrow> string \<Rightarrow> string" where
  "grounding user t =
     ''User asked: '' @ [CHR 0x22] @ user @ [CHR 0x22] @ nl @ nl
     @ ''Tool returned:'' @ nl @ t @ nl @ nl
     @ ''Reply to the user naturally in plain English. No JSON or code.''"

definition build_prompt :: "string \<Rightarrow> string option \<Rightarrow> string" where
  "build_prompt user tool_result =
     (case tool_result of
        None \<Rightarrow> user
      | Some t \<Rightarrow> if t \<noteq> [] then grounding user t else user)"

text \<open>Lines 86-124, the body of the loop after the exit test.\<close>

definition turn :: "env \<Rightarrow> session \<Rightarrow> string \<Rightarrow> state \<Rightarrow> (py_exn + unit) \<times> state" where
  "turn ev session user st =
     (case detect_tool (tables ev) user of
        Inl e \<Rightarrow> (Inl e, st)
      | Inr dec \<Rightarrow>
     (case run_tools ev session dec st of
        (Inl e, st1) \<Rightarrow> (Inl e, st1)
      | (Inr tool_result, st1) \<Rightarrow>
          (let st2 = st1\<lparr>history := history st1
                         @ [\<lparr>role = User, content_of = build_prompt user tool_result\<rparr>]\<rparr>
           in case ask_llm ev (history st2) of
                Inl e \<Rightarrow> (Inl e, st2)
              | Inr answer \<Rightarrow>
                  (Inr (),
                   st2\<lparr>stdout := stdout st2 @ [''Agent: '' @ answer @ nl @ nl],
                       history := history st2 @ [\<lparr>role = Assistant, content_of = answer\<rparr>]\<rparr>))))"

section \<open>\<open>agent_loop\<close>\<close>



definition em_dash :: string where
  "em_dash = [CHR 0xE2, CHR 0x80, CHR 0x94]"

definition SYSTEM :: string where
  "SYSTEM =
     ''You are a cheerful weekend assistant. ''
     @ ''When you receive tool data, present it naturally in plain English '' @ em_dash
     @ '' no JSON, no code. ''
     @ ''For trivia, show the question and all options clearly, then reveal the answer. ''
     @ ''For jokes, just say the joke. ''
     @ ''For weather, give a friendly summary. ''
     @ ''Keep replies short and warm.''"

definition initial :: state where
  "initial = \<lparr>history = [\<lparr>role = System, content_of = SYSTEM\<rparr>], stdout = [], calls = []\<rparr>"

definition stdout_write :: "string \<Rightarrow> state \<Rightarrow> state" where
  "stdout_write s st = st\<lparr>stdout := stdout st @ [s]\<rparr>"









section \<open>The tool server\<close>

text \<open>
  Each tool makes one outbound request. \<open>requests.get(url, params=...)\<close> either raises (no
  connection, time-out) or gives a response with a status code and a body that \<open>r.json()\<close>
  parses or rejects; \<open>r.raise_for_status()\<close> raises on the codes 400 to 599.
\<close>

record response =
  status_code :: nat
  json_body :: "py_exn + json"

type_synonym requests_get = "string \<Rightarrow> pydict \<Rightarrow> py_exn + response"

definition http_error :: py_exn where
  "http_error = Exn OtherException ''HTTPError''"

definition type_error :: py_exn where
  "type_error = Exn OtherException ''TypeError''"

definition index_error :: py_exn where
  "index_error = Exn OtherException ''IndexError''"

definition raise_for_status :: "response \<Rightarrow> py_exn + unit" where
  "raise_for_status r =
     (if 400 \<le> status_code r \<and> status_code r < 600 then Inl http_error else Inr ())"

text \<open>Lines 19-21, 48-50, 114-116: the request, the status check and the parsed body.\<close>

definition fetch_json :: "requests_get \<Rightarrow> string \<Rightarrow> pydict \<Rightarrow> py_exn + json" where
  "fetch_json get url params =
     (case get url params of
        Inl e \<Rightarrow> Inl e
      | Inr r \<Rightarrow>
          (case raise_for_status r of
             Inl e \<Rightarrow> Inl e
           | Inr u \<Rightarrow> json_body r))"

definition get_weather :: "requests_get \<Rightarrow> real \<Rightarrow> real \<Rightarrow> py_exn + json" where
  "get_weather get latitude longitude =
     (case fetch_json get ''https://api.open-meteo.com/v1/forecast''
             [(''latitude'', JFloat latitude),
              (''longitude'', JFloat longitude),
              (''current'', JStr ''temperature_2m,weather_code,wind_speed_10m''),
              (''timezone'', JStr ''auto''),
              (''temperature_unit'', JStr ''fahrenheit'')] of
        Inl e \<Rightarrow> Inl e
      | Inr j \<Rightarrow> py_get j ''current'' (JObj []))"

text \<open>
  The numbers of Python: \<open>int\<close>, \<open>float\<close> and \<open>bool\<close> compare, hash and round as numbers;
  on anything else \<open>&lt;\<close> and \<open>round\<close> raise \<open>TypeError\<close>.
\<close>

fun num_value :: "json \<Rightarrow> real option" where
  "num_value (JInt n) = Some (real_of_int n)"
| "num_value (JFloat x) = Some x"
| "num_value (JBool b) = Some (if b then 1 else 0)"
| "num_value j = None"

text \<open>
  Rounding a float to one digit and the decimal renderings of numbers are Python's own
  and are taken as given.
\<close>

record builtins =
  round1 :: "real \<Rightarrow> real"
  str_float :: "real \<Rightarrow> string"
  str_int :: "int \<Rightarrow> string"

text \<open>\<open>round(x, 1)\<close>: an \<open>int\<close> (or \<open>bool\<close>) comes back as that \<open>int\<close>.\<close>

fun py_round1 :: "builtins \<Rightarrow> json \<Rightarrow> py_exn + json" where
  "py_round1 b (JInt n) = Inr (JInt n)"
| "py_round1 b (JBool t) = Inr (JInt (if t then 1 else 0))"
| "py_round1 b (JFloat x) = Inr (JFloat (round1 b x))"
| "py_round1 b j = Inl type_error"

text \<open>A number inside an f-string.\<close>

fun py_str :: "builtins \<Rightarrow> json \<Rightarrow> string" where
  "py_str b (JInt n) = str_int b n"
| "py_str b (JFloat x) = str_float b x"
| "py_str b (JBool t) = (if t then ''True'' else ''False'')"
| "py_str b j = []"

definition descriptions :: "(int \<times> string) list" where
  "descriptions =
     [(0, ''clear sky''), (1, ''mainly clear''), (2, ''partly cloudy''), (3, ''overcast''),
      (45, ''foggy''), (51, ''light drizzle''), (61, ''light rain''), (63, ''rain''),
      (65, ''heavy rain''), (71, ''light snow''), (73, ''snow''), (80, ''rain showers''),
      (95, ''thunderstorm'')]"

text \<open>
  \<open>descriptions.get(code, "unknown weather")\<close>: a list or a dict is not hashable, a number
  finds the key equal to it, anything else finds none.
\<close>

fun condition_of :: "json \<Rightarrow> py_exn + string" where
  "condition_of (JArr xs) = Inl type_error"
| "condition_of (JObj kv) = Inl type_error"
| "condition_of code =
     Inr (case num_value code of
            None \<Rightarrow> ''unknown weather''
          | Some x \<Rightarrow>
              (case map_of (map (\<lambda>(k, v). (real_of_int k, v)) descriptions) x of
                 None \<Rightarrow> ''unknown weather''
               | Some d \<Rightarrow> d))"

definition degree :: string where
  "degree = [CHR 0xC2, CHR 0xB0]"

definition feel_of :: "real \<Rightarrow> string" where
  "feel_of temp_f =
     (if temp_f < 32 then ''Freezing cold '' @ em_dash @ '' perfect for hot cocoa indoors!''
      else if temp_f < 50 then ''Chilly '' @ em_dash @ '' grab a cozy sweater.''
      else if temp_f < 70 then ''Pleasant and mild.''
      else if temp_f < 85 then ''Warm and lovely.''
      else ''Hot '' @ em_dash @ '' stay hydrated!'')"

definition weather_summary :: "builtins \<Rightarrow> requests_get \<Rightarrow> real \<Rightarrow> real \<Rightarrow> py_exn + json" where
  "weather_summary b get latitude longitude =
     (case get_weather get latitude longitude of
        Inl e \<Rightarrow> Inl e
      | Inr data \<Rightarrow>
          (case py_get data ''temperature_2m'' JNull of
             Inl e \<Rightarrow> Inl e
           | Inr temp_f \<Rightarrow>
               if temp_f = JNull then Inr (JObj [(''error'', JStr ''Could not retrieve weather'')])
               else
                 (case py_get data ''wind_speed_10m'' (JInt 0) of
                    Inl e \<Rightarrow> Inl e
                  | Inr wind_kmh \<Rightarrow>
                 (case py_get data ''weather_code'' (JInt 0) of
                    Inl e \<Rightarrow> Inl e
                  | Inr code \<Rightarrow>
                 (case condition_of code of
                    Inl e \<Rightarrow> Inl e
                  | Inr condition \<Rightarrow>
                 (case num_value temp_f of
                    None \<Rightarrow> Inl type_error
                  | Some t \<Rightarrow>
                 (case py_round1 b temp_f of
                    Inl e \<Rightarrow> Inl e
                  | Inr rounded_temp \<Rightarrow>
                 (case py_round1 b wind_kmh of
                    Inl e \<Rightarrow> Inl e
                  | Inr rounded_wind \<Rightarrow>
                      Inr (JObj
                        [(''temperature_f'', rounded_temp),
                         (''condition'', JStr condition),
                         (''wind_kmh'', rounded_wind),
                         (''summary'', JStr
                            (''It'' @ [CHR 0x27] @ ''s currently '' @ py_str b temp_f @ degree
                             @ ''F and '' @ condition @ '' with winds around ''
                             @ py_str b wind_kmh @ '' km/h. '' @ feel_of t))])))))))))"

text \<open>Lines 112-117.\<close>

definition random_joke :: "requests_get \<Rightarrow> py_exn + json" where
  "random_joke get =
     (case fetch_json get ''https://v2.jokeapi.dev/joke/Any?type=single&safe-mode'' [] of
        Inl e \<Rightarrow> Inl e
      | Inr data \<Rightarrow>
          (case py_get data ''joke'' (JStr ''No joke found'') of
             Inl e \<Rightarrow> Inl e
           | Inr j \<Rightarrow> Inr (JObj [(''joke'', j)])))"

text \<open>\<open>x[0]\<close> and \<open>x[k]\<close> for a string key \<open>k\<close>.\<close>

fun subscript0 :: "json \<Rightarrow> py_exn + json" where
  "subscript0 (JArr (x # xs)) = Inr x"
| "subscript0 (JArr []) = Inl index_error"
| "subscript0 (JStr (c # cs)) = Inr (JStr [c])"
| "subscript0 (JStr []) = Inl index_error"
| "subscript0 (JObj kv) = Inl (Exn OtherException ''0'')"
| "subscript0 j = Inl type_error"

fun subscript :: "json \<Rightarrow> string \<Rightarrow> py_exn + json" where
  "subscript (JObj kv) k =
     (case map_of kv k of None \<Rightarrow> Inl (key_error k) | Some v \<Rightarrow> Inr v)"
| "subscript j k = Inl type_error"

text \<open>Lines 19-32, the body of the \<open>try\<close> of \<open>city_to_coords\<close>.\<close>

definition city_to_coords_try :: "requests_get \<Rightarrow> string \<Rightarrow> py_exn + json" where
  "city_to_coords_try get c =
     (case fetch_json get ''https://geocoding-api.open-meteo.com/v1/search''
             [(''name'', JStr c), (''count'', JInt 1), (''language'', JStr ''en'')] of
        Inl e \<Rightarrow> Inl e
      | Inr data \<Rightarrow>
     (case py_get data ''results'' (JArr []) of
        Inl e \<Rightarrow> Inl e
      | Inr results \<Rightarrow>
          if \<not> truthy results then
            Inr (JObj [(''error'', JStr (''City '' @ [CHR 0x27] @ c @ [CHR 0x27] @ '' not found''))])
          else
     (case subscript0 results of
        Inl e \<Rightarrow> Inl e
      | Inr loc \<Rightarrow>
     (case subscript loc ''name'' of
        Inl e \<Rightarrow> Inl e
      | Inr name \<Rightarrow>
     (case py_get loc ''country'' JNull of
        Inl e \<Rightarrow> Inl e
      | Inr country \<Rightarrow>
     (case subscript loc ''latitude'' of
        Inl e \<Rightarrow> Inl e
      | Inr lat \<Rightarrow>
     (case subscript loc ''longitude'' of
        Inl e \<Rightarrow> Inl e
      | Inr lon \<Rightarrow>
     (case py_get loc ''timezone'' JNull of
        Inl e \<Rightarrow> Inl e
      | Inr tz \<Rightarrow>
          Inr (JObj [(''city'', name), (''country'', country), (''latitude'', lat),
                     (''longitude'', lon), (''timezone'', tz)])))))))))"

text \<open>Lines 33-34: \<open>except Exception as e: return {"error": str(e)}\<close>.\<close>

definition city_to_coords :: "requests_get \<Rightarrow> string \<Rightarrow> py_exn + json" where
  "city_to_coords get c =
     (case city_to_coords_try get c of
        Inr d \<Rightarrow> Inr d
      | Inl e \<Rightarrow> if is_Exception e then Inr (JObj [(''error'', JStr (msg e))]) else Inl e)"

section \<open>Worlds to run the program in\<close>

text \<open>
  Concrete sessions, library functions and requests for running the definitions.
  \<open>some_json_loads\<close> gives what \<open>json.loads\<close> gives on the texts it is used on.
\<close>

definition dq :: string where
  "dq = [CHR 0x22]"

definition null_island :: string where
  "null_island = ''{'' @ dq @ ''latitude'' @ dq @ '': 0, '' @ dq @ ''longitude'' @ dq @ '': 0.0}''"

definition some_json_loads :: "string \<Rightarrow> py_exn + json" where
  "some_json_loads s =
     (if s = ''{}'' then Inr (JObj [])
      else if s = ''[]'' then Inr (JArr [])
      else if s = null_island then Inr (JObj [(''latitude'', JInt 0), (''longitude'', JFloat 0)])
      else Inl (Exn OtherException ''Expecting value''))"

text \<open>
  Tables that say about the ASCII characters what Python's say, and about every other
  character that it is in no class and is left alone by \<open>lower\<close>. They are used on ASCII
  texts only.
\<close>

definition ascii_upper :: "char \<Rightarrow> bool" where
  "ascii_upper c = (65 \<le> (of_char c :: nat) \<and> (of_char c :: nat) \<le> 90)"

definition ascii_lower :: "char \<Rightarrow> bool" where
  "ascii_lower c = (97 \<le> (of_char c :: nat) \<and> (of_char c :: nat) \<le> 122)"

definition ascii_digit :: "char \<Rightarrow> bool" where
  "ascii_digit c = (48 \<le> (of_char c :: nat) \<and> (of_char c :: nat) \<le> 57)"

definition ascii_space :: "char \<Rightarrow> bool" where
  "ascii_space c =
     ((9 \<le> (of_char c :: nat) \<and> (of_char c :: nat) \<le> 13)
      \<or> (28 \<le> (of_char c :: nat) \<and> (of_char c :: nat) \<le> 32))"

definition to_lower :: "char \<Rightarrow> char" where
  "to_lower c = (if ascii_upper c then char_of ((of_char c :: nat) + 32) else c)"

definition one_byte :: "(char \<Rightarrow> bool) \<Rightarrow> pychar \<Rightarrow> bool" where
  "one_byte p c = (case c of [b] \<Rightarrow> p b | _ \<Rightarrow> False)"

definition ascii_tables :: tables where
  "ascii_tables =
     \<lparr>lower = map to_lower,
      is_space = one_byte ascii_space,
      is_word = one_byte (\<lambda>b. ascii_upper b \<or> ascii_lower b \<or> ascii_digit b \<or> b = CHR ''_''),
      in_class = one_byte (\<lambda>b. ascii_lower b \<or> ascii_upper b \<or> b = CHR '' ''),
      letter_ci = (\<lambda>k. one_byte (\<lambda>b. to_lower b = k))\<rparr>"

definition some_env :: env where
  "some_env =
     \<lparr>chat = (\<lambda>messages. Inr (Some '' Hello! '')), json_loads = some_json_loads,
      tables = ascii_tables\<rparr>"


text \<open>A session on which every call returns the one text block \<open>t\<close> within the bound.\<close>

definition text_session :: "string \<Rightarrow> session" where
  "text_session t made name a =
     \<lparr>duration = 1, outcome = Inr \<lparr>content = [TextBlock t], model_dump_json = Inr ''{}''\<rparr>\<rparr>"

text \<open>A session on which every call takes longer than the bound.\<close>

definition slow_session :: session where
  "slow_session made name a =
     \<lparr>duration = 25, outcome = Inr \<lparr>content = [TextBlock ''late''], model_dump_json = Inr ''{}''\<rparr>\<rparr>"

text \<open>A session on which every call fails within the bound.\<close>

definition broken_session :: session where
  "broken_session made name a =
     \<lparr>duration = 2, outcome = Inl (Exn OtherException ''Connection closed'')\<rparr>"

text \<open>A session whose call is cancelled while it is awaited (the user interrupts).\<close>

definition cancelled_session :: session where
  "cancelled_session made name a = \<lparr>duration = 3, outcome = Inl (Exn CancelledError [])\<rparr>"

text \<open>A request that finds no network.\<close>

definition no_network :: requests_get where
  "no_network url params = Inl (Exn OtherException ''Connection refused'')"

definition some_builtins :: builtins where
  "some_builtins = \<lparr>round1 = (\<lambda>x. x), str_float = (\<lambda>x. ''59.0''), str_int = (\<lambda>n. ''59'')\<rparr>"

section \<open>What the claims speak of\<close>

text \<open>
  The number of completed turns is read off standard output: a turn is complete when its
  reply has been written, and only replies start with \<open>Agent: \<close>.
\<close>

definition replies :: "state \<Rightarrow> nat" where
  "replies st = length (filter (prefix ''Agent: '') (stdout st))"



section \<open>\<open>call_tool\<close> hands every fault back as text\<close>

lemma call_tool_try_timeout:
  "duration r > 20 \<Longrightarrow> call_tool_try r = Inl (Exn TimeoutError [])"
  by (simp add: call_tool_try_def wait_for_def)

lemma call_tool_try_fault:
  "\<not> duration r > 20 \<Longrightarrow> outcome r = Inl e \<Longrightarrow> call_tool_try r = Inl e"
  by (simp add: call_tool_try_def wait_for_def)

text \<open>
  Claim C2 says that \<open>call_tool\<close> never raises to its caller. Its handlers are
  \<open>except asyncio.TimeoutError\<close> and \<open>except Exception\<close>: when the task is cancelled
  while the call is awaited, the \<open>CancelledError\<close> is neither, and \<open>call_tool\<close> raises it.
\<close>

theorem call_tool_raises_counterexample:
  "fst (call_tool cancelled_session ''trivia'' [] initial) = Inl (Exn CancelledError [])"
  by code_simp

text \<open>
  Claim C2, amended. For every tool name, argument map and state of the session,
  \<open>call_tool\<close> raises no \<open>Exception\<close> to its caller: what it raises, if anything, is a
  signal that is not an \<open>Exception\<close> (cancellation, \<open>KeyboardInterrupt\<close>) raised inside its
  \<open>try\<close>. If the call takes longer than the bound of 20 it returns
  \<open>[Error: '<name>' timed out]\<close>; if the call fails within the bound with an \<open>Exception\<close>
  other than a time-out it returns \<open>[Error: <message of the fault>]\<close>.
\<close>

theorem call_tool_catches_faults:
  "(\<forall>e. fst (call_tool session name a st) = Inl e \<longrightarrow>
        \<not> is_Exception e \<and> call_tool_try (session (calls st) name a) = Inl e)
   \<and> (duration (session (calls st) name a) > 20 \<longrightarrow>
        fst (call_tool session name a st)
          = Inr (''[Error: '' @ [CHR 0x27] @ name @ [CHR 0x27] @ '' timed out]''))
   \<and> (\<forall>e. duration (session (calls st) name a) \<le> 20
          \<and> outcome (session (calls st) name a) = Inl e
          \<and> is_Exception e \<and> cls e \<noteq> TimeoutError \<longrightarrow>
        fst (call_tool session name a st) = Inr (''[Error: '' @ msg e @ '']''))"
proof -
  let ?r = "session (calls st) name a"
  have one: "\<forall>e. call_tool_of name ?r = Inl e \<longrightarrow> \<not> is_Exception e \<and> call_tool_try ?r = Inl e"
    by (auto simp: call_tool_of_def split: sum.splits if_splits)
  have two: "duration ?r > 20 \<longrightarrow> call_tool_of name ?r
      = Inr (''[Error: '' @ [CHR 0x27] @ name @ [CHR 0x27] @ '' timed out]'')"
    by (simp add: call_tool_of_def call_tool_try_timeout)
  have three: "\<forall>e. duration ?r \<le> 20 \<and> outcome ?r = Inl e \<and> is_Exception e \<and> cls e \<noteq> TimeoutError \<longrightarrow>
      call_tool_of name ?r = Inr (''[Error: '' @ msg e @ '']'')"
  proof (intro allI impI)
    fix e
    assume h: "duration ?r \<le> 20 \<and> outcome ?r = Inl e \<and> is_Exception e \<and> cls e \<noteq> TimeoutError"
    then have "call_tool_try ?r = Inl e"
      by (simp add: call_tool_try_fault)
    with h show "call_tool_of name ?r = Inr (''[Error: '' @ msg e @ '']'')"
      by (simp add: call_tool_of_def)
  qed
  from one two three show ?thesis
    by (simp add: call_tool_def)
qed

text \<open>
  The theorem at a call that is cancelled, at a call that is too slow and at a call
  that fails at once.
\<close>

theorem call_tool_catches_faults_witness:
  "fst (call_tool cancelled_session ''trivia'' [] initial) = Inl (Exn CancelledError [])
   \<and> \<not> is_Exception (Exn CancelledError [])
   \<and> duration (slow_session (calls initial) ''trivia'' []) > 20
   \<and> fst (call_tool slow_session ''trivia'' [] initial)
       = Inr (''[Error: '' @ [CHR 0x27] @ ''trivia'' @ [CHR 0x27] @ '' timed out]'')
   \<and> outcome (broken_session (calls initial) ''trivia'' [])
       = Inl (Exn OtherException ''Connection closed'')
   \<and> fst (call_tool broken_session ''trivia'' [] initial) = Inr ''[Error: Connection closed]''"
proof -
  have cancelled: "fst (call_tool cancelled_session ''trivia'' [] initial) = Inl (Exn CancelledError [])"
    by code_simp
  have slow: "duration (slow_session (calls initial) ''trivia'' []) > 20"
    by (simp add: slow_session_def)
  have broken: "duration (broken_session (calls initial) ''trivia'' []) \<le> 20
      \<and> outcome (broken_session (calls initial) ''trivia'' []) = Inl (Exn OtherException ''Connection closed'')
      \<and> is_Exception (Exn OtherException ''Connection closed'')
      \<and> cls (Exn OtherException ''Connection closed'') \<noteq> TimeoutError"
    by (simp add: broken_session_def is_Exception_def)
  from call_tool_catches_faults [of cancelled_session "''trivia''" "[]" initial] cancelled
  have r1: "\<not> is_Exception (Exn CancelledError [])"
    by blast
  from call_tool_catches_faults [of slow_session "''trivia''" "[]" initial] slow
  have r2: "fst (call_tool slow_session ''trivia'' [] initial)
       = Inr (''[Error: '' @ [CHR 0x27] @ ''trivia'' @ [CHR 0x27] @ '' timed out]'')"
    by blast
  from call_tool_catches_faults [of broken_session "''trivia''" "[]" initial] broken
  have r3: "fst (call_tool broken_session ''trivia'' [] initial) = Inr ''[Error: Connection closed]''"
    by auto
  from cancelled r1 slow r2 broken r3 show ?thesis
    by blast
qed

section \<open>The weather pipeline stops after a geocode result without coordinates\<close>

lemma pipeline_after_geocode:
  assumes "fst (call_tool session ''city_to_coords'' [(''city'', JStr c)] st) = Inr raw"
  shows "call_tool session ''city_to_coords'' [(''city'', JStr c)] st
       = (Inr raw, st\<lparr>calls := calls st @ [(''city_to_coords'', [(''city'', JStr c)])]\<rparr>)"
  using assms by (simp add: call_tool_def)

lemma is_Exception_attribute_error: "is_Exception attribute_error"
  by (simp add: is_Exception_def attribute_error_def)

lemma py_get_not_dict: "\<forall>kv. j \<noteq> JObj kv \<Longrightarrow> py_get j k d = Inl attribute_error"
  by (cases j) simp_all

text \<open>
  Claim C1 says that a geocode result that cannot be parsed gives the message
  \<open>Could not find city '<city>'.\<close> It does not: when the geocode call times out, its
  result is the bracketed error text, \<open>json.loads\<close> rejects that text, and the handler
  of lines 103-104 makes the text itself the result of the pipeline.
\<close>

theorem unparsed_geocode_counterexample:
  "json_loads some_env (''[Error: '' @ [CHR 0x27] @ ''city_to_coords'' @ [CHR 0x27] @ '' timed out]'')
     = Inl (Exn OtherException ''Expecting value'')
   \<and> fst (weather_pipeline some_env slow_session ''Paris'' initial)
     = Inr (''[Error: '' @ [CHR 0x27] @ ''city_to_coords'' @ [CHR 0x27] @ '' timed out]'')
   \<and> fst (weather_pipeline some_env slow_session ''Paris'' initial)
     \<noteq> Inr (''Could not find city '' @ [CHR 0x27] @ ''Paris'' @ [CHR 0x27] @ ''.'')"
  by code_simp

text \<open>
  Claim C1, amended. Let the geocode call return the text \<open>raw\<close>. If \<open>raw\<close> parses to a
  mapping in which \<open>latitude\<close> or \<open>longitude\<close> is missing, the pipeline gives
  \<open>Could not find city '<city>'.\<close>; if the parser raises an \<open>Exception\<close> on \<open>raw\<close>, or
  \<open>raw\<close> parses to something that is not a mapping, the pipeline gives \<open>raw\<close> unchanged.
  In all three cases the only call made on the session is the one to
  \<open>city_to_coords\<close>: \<open>weather_summary\<close> is not invoked.
\<close>

theorem pipeline_without_coordinates:
  assumes geo: "fst (call_tool session ''city_to_coords'' [(''city'', JStr c)] st) = Inr raw"
  shows "(\<forall>kv. json_loads ev raw = Inr (JObj kv)
              \<and> (map_of kv ''latitude'' = None \<or> map_of kv ''longitude'' = None) \<longrightarrow>
            weather_pipeline ev session c st
              = (Inr (''Could not find city '' @ [CHR 0x27] @ c @ [CHR 0x27] @ ''.''),
                 st\<lparr>calls := calls st @ [(''city_to_coords'', [(''city'', JStr c)])]\<rparr>))
       \<and> (\<forall>e. json_loads ev raw = Inl e \<and> is_Exception e \<longrightarrow>
            weather_pipeline ev session c st
              = (Inr raw, st\<lparr>calls := calls st @ [(''city_to_coords'', [(''city'', JStr c)])]\<rparr>))
       \<and> (\<forall>j. json_loads ev raw = Inr j \<and> (\<forall>kv. j \<noteq> JObj kv) \<longrightarrow>
            weather_pipeline ev session c st
              = (Inr raw, st\<lparr>calls := calls st @ [(''city_to_coords'', [(''city'', JStr c)])]\<rparr>))"
proof (intro conjI allI impI)
  fix kv
  assume "json_loads ev raw = Inr (JObj kv)
      \<and> (map_of kv ''latitude'' = None \<or> map_of kv ''longitude'' = None)"
  then show "weather_pipeline ev session c st
              = (Inr (''Could not find city '' @ [CHR 0x27] @ c @ [CHR 0x27] @ ''.''),
                 st\<lparr>calls := calls st @ [(''city_to_coords'', [(''city'', JStr c)])]\<rparr>)"
    by (auto simp: weather_pipeline_def pipeline_after_geocode [OF geo])
next
  fix e
  assume "json_loads ev raw = Inl e \<and> is_Exception e"
  then show "weather_pipeline ev session c st
              = (Inr raw, st\<lparr>calls := calls st @ [(''city_to_coords'', [(''city'', JStr c)])]\<rparr>)"
    by (simp add: weather_pipeline_def pipeline_after_geocode [OF geo] on_exception_def)
next
  fix j
  assume "json_loads ev raw = Inr j \<and> (\<forall>kv. j \<noteq> JObj kv)"
  then show "weather_pipeline ev session c st
              = (Inr raw, st\<lparr>calls := calls st @ [(''city_to_coords'', [(''city'', JStr c)])]\<rparr>)"
    by (simp add: weather_pipeline_def pipeline_after_geocode [OF geo] on_exception_def
        py_get_not_dict is_Exception_attribute_error)
qed

text \<open>
  The theorem on a geocode result that is the empty mapping, on one that is the error
  text of a failed call, and on one that is a list.
\<close>

theorem pipeline_without_coordinates_witness:
  "weather_pipeline some_env (text_session ''{}'') ''Atlantis'' initial
     = (Inr (''Could not find city '' @ [CHR 0x27] @ ''Atlantis'' @ [CHR 0x27] @ ''.''),
        initial\<lparr>calls := calls initial @ [(''city_to_coords'', [(''city'', JStr ''Atlantis'')])]\<rparr>)
   \<and> weather_pipeline some_env broken_session ''Atlantis'' initial
     = (Inr ''[Error: Connection closed]'',
        initial\<lparr>calls := calls initial @ [(''city_to_coords'', [(''city'', JStr ''Atlantis'')])]\<rparr>)
   \<and> weather_pipeline some_env (text_session ''[]'') ''Atlantis'' initial
     = (Inr ''[]'',
        initial\<lparr>calls := calls initial @ [(''city_to_coords'', [(''city'', JStr ''Atlantis'')])]\<rparr>)"
proof -
  have g1: "fst (call_tool (text_session ''{}'') ''city_to_coords'' [(''city'', JStr ''Atlantis'')] initial)
      = Inr ''{}''"
    by code_simp
  have g2: "fst (call_tool broken_session ''city_to_coords'' [(''city'', JStr ''Atlantis'')] initial)
      = Inr ''[Error: Connection closed]''"
    by code_simp
  have g3: "fst (call_tool (text_session ''[]'') ''city_to_coords'' [(''city'', JStr ''Atlantis'')] initial)
      = Inr ''[]''"
    by code_simp
  have p1: "json_loads some_env ''{}'' = Inr (JObj [])
      \<and> (map_of [] ''latitude'' = (None :: json option) \<or> map_of [] ''longitude'' = (None :: json option))"
    by (simp add: some_env_def some_json_loads_def)
  have p2: "json_loads some_env ''[Error: Connection closed]'' = Inl (Exn OtherException ''Expecting value'')
      \<and> is_Exception (Exn OtherException ''Expecting value'')"
    by (simp add: some_env_def some_json_loads_def null_island_def is_Exception_def)
  have p3: "json_loads some_env ''[]'' = Inr (JArr []) \<and> (\<forall>kv. JArr [] \<noteq> JObj kv)"
    by (simp add: some_env_def some_json_loads_def)
  from pipeline_without_coordinates [OF g1, of some_env] p1
    pipeline_without_coordinates [OF g2, of some_env] p2
    pipeline_without_coordinates [OF g3, of some_env] p3
  show ?thesis by blast
qed

section \<open>A zero coordinate counts as no coordinate\<close>

text \<open>
  Claim C9. If the geocode result parses to a mapping in which \<open>latitude\<close> or
  \<open>longitude\<close> is the number 0 (as an \<open>int\<close> or as a \<open>float\<close>), the pipeline gives
  \<open>Could not find city '<city>'.\<close> and makes no call to \<open>weather_summary\<close>: the test
  \<open>if lat and lon\<close> is on truth values, and 0 is false.
\<close>

theorem zero_coordinate_not_found:
  assumes geo: "fst (call_tool session ''city_to_coords'' [(''city'', JStr c)] st) = Inr raw"
    and parsed: "json_loads ev raw = Inr (JObj kv)"
    and zero: "map_of kv ''latitude'' = Some (JInt 0) \<or> map_of kv ''latitude'' = Some (JFloat 0)
             \<or> map_of kv ''longitude'' = Some (JInt 0) \<or> map_of kv ''longitude'' = Some (JFloat 0)"
  shows "weather_pipeline ev session c st
           = (Inr (''Could not find city '' @ [CHR 0x27] @ c @ [CHR 0x27] @ ''.''),
              st\<lparr>calls := calls st @ [(''city_to_coords'', [(''city'', JStr c)])]\<rparr>)"
  using parsed zero
  by (auto simp: weather_pipeline_def pipeline_after_geocode [OF geo])

text \<open>The theorem at latitude 0, longitude 0.0.\<close>

theorem zero_coordinate_not_found_witness:
  "json_loads some_env null_island = Inr (JObj [(''latitude'', JInt 0), (''longitude'', JFloat 0)])
   \<and> weather_pipeline some_env (text_session null_island) ''Null Island'' initial
     = (Inr (''Could not find city '' @ [CHR 0x27] @ ''Null Island'' @ [CHR 0x27] @ ''.''),
        initial\<lparr>calls := calls initial @ [(''city_to_coords'', [(''city'', JStr ''Null Island'')])]\<rparr>)"
proof -
  have geo: "fst (call_tool (text_session null_island) ''city_to_coords''
      [(''city'', JStr ''Null Island'')] initial) = Inr null_island"
    by code_simp
  have parsed: "json_loads some_env null_island
      = Inr (JObj [(''latitude'', JInt 0), (''longitude'', JFloat 0)])"
    by (simp add: some_env_def some_json_loads_def null_island_def dq_def)
  have zero: "map_of [(''latitude'', JInt 0), (''longitude'', JFloat 0)] ''latitude'' = Some (JInt 0)
      \<or> map_of [(''latitude'', JInt 0), (''longitude'', JFloat 0)] ''latitude'' = Some (JFloat 0)
      \<or> map_of [(''latitude'', JInt 0), (''longitude'', JFloat 0)] ''longitude'' = Some (JInt 0)
      \<or> map_of [(''latitude'', JInt 0), (''longitude'', JFloat 0)] ''longitude'' = Some (JFloat 0)"
    by simp
  from zero_coordinate_not_found [OF geo parsed zero] parsed show ?thesis
    by simp
qed

section \<open>Tool calls touch neither the history nor standard output\<close>

lemma call_tool_keeps:
  "call_tool session name a st = (r, st1) \<Longrightarrow> history st1 = history st \<and> stdout st1 = stdout st"
  by (auto simp: call_tool_def)

lemma weather_pipeline_keeps:
  "weather_pipeline ev session c st = (r, st1) \<Longrightarrow> history st1 = history st \<and> stdout st1 = stdout st"
  by (auto simp: weather_pipeline_def on_exception_def split: prod.splits sum.splits if_splits
      dest!: call_tool_keeps)

lemma run_tools_keeps:
  "run_tools ev session dec st = (r, st1) \<Longrightarrow> history st1 = history st \<and> stdout st1 = stdout st"
  by (auto simp: run_tools_def split: option.splits prod.splits sum.splits if_splits
      dest!: call_tool_keeps weather_pipeline_keeps)

section \<open>An empty tool result leaves the turn ungrounded\<close>

text \<open>
  Claim C10. When a tool has been chosen and invoked and the text it yields as
  \<open>tool_result\<close> is the empty string (a directly invoked tool for which \<open>call_tool\<close>
  returns the empty string, or the weather pipeline giving the empty string), the turn
  goes on as a turn without a tool does: the prompt is the one built for no tool, that
  is, the user's text unchanged, and the history grows by that text as the user message
  and, if the model answers, by the answer. The test of line 109 is on the truth value
  of \<open>tool_result\<close>, and the empty string is false.
\<close>

theorem empty_result_is_ungrounded:
  assumes dec: "detect_tool (tables ev) user = Inr (Some d)"
    and empty:
      "(tool d \<noteq> ''weather_pipeline''
          \<and> fst (call_tool session (tool d) (case args d of None \<Rightarrow> [] | Some a \<Rightarrow> a) st) = Inr [])
       \<or> (tool d = ''weather_pipeline''
          \<and> (\<exists>c. city d = Some c \<and> fst (weather_pipeline ev session c st) = Inr []))"
  shows "fst (run_tools ev session (Some d) st) = Inr (Some [])
       \<and> build_prompt user (Some []) = build_prompt user None
       \<and> history (snd (turn ev session user st))
           = history st @ [\<lparr>role = User, content_of = user\<rparr>]
             @ (case ask_llm ev (history st @ [\<lparr>role = User, content_of = user\<rparr>]) of
                  Inl e \<Rightarrow> []
                | Inr answer \<Rightarrow> [\<lparr>role = Assistant, content_of = answer\<rparr>])"
proof -
  from empty have ran: "fst (run_tools ev session (Some d) st) = Inr (Some [])"
    by (auto simp: run_tools_def split: prod.splits sum.splits)
  then obtain st1 where tools: "run_tools ev session (Some d) st = (Inr (Some []), st1)"
    by (cases "run_tools ev session (Some d) st") auto
  from run_tools_keeps [OF tools] have same: "history st1 = history st"
    by simp
  have prompt: "build_prompt user (Some []) = user" "build_prompt user None = user"
    by (simp_all add: build_prompt_def)
  from dec tools same prompt ran show ?thesis
    by (simp add: turn_def Let_def split: sum.splits)
qed

text \<open>
  The theorem at a joke tool that returns one empty text block, and at a geocode call
  that returns one empty text block, which \<open>json.loads\<close> rejects.
\<close>

theorem empty_result_is_ungrounded_witness:
  "detect_tool (tables some_env) ''tell me a joke'' = Inr (Some (direct ''random_joke'' []))
   \<and> fst (call_tool (text_session []) ''random_joke'' [] initial) = Inr []
   \<and> history (snd (turn some_env (text_session []) ''tell me a joke'' initial))
     = [\<lparr>role = System, content_of = SYSTEM\<rparr>,
        \<lparr>role = User, content_of = ''tell me a joke''\<rparr>,
        \<lparr>role = Assistant, content_of = ''Hello!''\<rparr>]
   \<and> fst (weather_pipeline some_env (text_session []) ''Oslo'' initial) = Inr []
   \<and> history (snd (turn some_env (text_session []) ''weather in Oslo'' initial))
     = [\<lparr>role = System, content_of = SYSTEM\<rparr>,
        \<lparr>role = User, content_of = ''weather in Oslo''\<rparr>,
        \<lparr>role = Assistant, content_of = ''Hello!''\<rparr>]"
proof -
  have dec: "detect_tool (tables some_env) ''tell me a joke'' = Inr (Some (direct ''random_joke'' []))"
    by code_simp
  have called: "fst (call_tool (text_session []) ''random_joke'' [] initial) = Inr []"
    by code_simp
  then have empty:
    "(tool (direct ''random_joke'' []) \<noteq> ''weather_pipeline''
        \<and> fst (call_tool (text_session []) (tool (direct ''random_joke'' []))
            (case args (direct ''random_joke'' []) of None \<Rightarrow> [] | Some a \<Rightarrow> a) initial) = Inr [])
     \<or> (tool (direct ''random_joke'' []) = ''weather_pipeline''
        \<and> (\<exists>c. city (direct ''random_joke'' []) = Some c
              \<and> fst (weather_pipeline some_env (text_session []) c initial) = Inr []))"
    by (simp add: direct_def)
  have answer: "ask_llm some_env (history initial @ [\<lparr>role = User, content_of = ''tell me a joke''\<rparr>])
      = Inr ''Hello!''"
    by code_simp
  have dec': "detect_tool (tables some_env) ''weather in Oslo''
      = Inr (Some \<lparr>tool = ''weather_pipeline'', city = Some ''Oslo'', args = None\<rparr>)"
    by code_simp
  have piped: "fst (weather_pipeline some_env (text_session []) ''Oslo'' initial) = Inr []"
    by code_simp
  then have empty':
    "(tool \<lparr>tool = ''weather_pipeline'', city = Some ''Oslo'', args = None\<rparr> \<noteq> ''weather_pipeline''
        \<and> fst (call_tool (text_session []) (tool \<lparr>tool = ''weather_pipeline'', city = Some ''Oslo'', args = None\<rparr>)
            (case args \<lparr>tool = ''weather_pipeline'', city = Some ''Oslo'', args = None\<rparr> of
               None \<Rightarrow> [] | Some a \<Rightarrow> a) initial) = Inr [])
     \<or> (tool \<lparr>tool = ''weather_pipeline'', city = Some ''Oslo'', args = None\<rparr> = ''weather_pipeline''
        \<and> (\<exists>c. city \<lparr>tool = ''weather_pipeline'', city = Some ''Oslo'', args = None\<rparr> = Some c
              \<and> fst (weather_pipeline some_env (text_session []) c initial) = Inr []))"
    by simp
  have answer': "ask_llm some_env (history initial @ [\<lparr>role = User, content_of = ''weather in Oslo''\<rparr>])
      = Inr ''Hello!''"
    by code_simp
  from empty_result_is_ungrounded [OF dec empty] empty_result_is_ungrounded [OF dec' empty']
    dec called answer piped answer'
  show ?thesis
    by (simp add: initial_def)
qed

section \<open>The history grows by one user and one assistant message per turn\<close>


lemma history_write [simp]: "history (stdout_write s st) = history st"
  by (simp add: stdout_write_def)










section \<open>When the loop ends\<close>





section \<open>The city of a weather request\<close>














section \<open>The order of the categories\<close>

lemma weather_city_returns: "\<exists>r. weather_city t user = Inr r"
  by (auto simp: weather_city_def group1_def Let_def)

lemma book_topic_returns: "\<exists>r. book_topic t user = Inr r"
  by (auto simp: book_topic_def group1_def Let_def)

text \<open>
  Claim C4 says that the first category whose keywords occur in the text wins, so that
  after a weather keyword no later category is consulted. In \<open>weather joke\<close> a weather
  keyword occurs, no city is captured, and the joke category wins.
\<close>

theorem first_category_counterexample:
  "any_in weather_words (lower ascii_tables ''weather joke'')
   \<and> detect_tool ascii_tables ''weather joke'' = Inr (Some (direct ''random_joke'' []))"
  by code_simp

text \<open>
  Claim C4, amended. The categories are tested in the order weather, trivia, joke,
  dog image, book recommendation, on the lowercased text. Weather wins, whatever other
  keywords occur, when one of its keywords occurs and a non-empty city is captured.
  Otherwise (no weather keyword, or no city) the first of trivia, joke, dog image and
  book recommendation whose keywords occur wins, and if none occurs there is no tool.
  This holds for whatever the interpreter's tables make of the text.
\<close>

theorem detect_tool_priority:
  "(any_in weather_words (lower t user) \<and> weather_city t user = Inr (Some c) \<and> c \<noteq> [] \<longrightarrow>
      detect_tool t user = Inr (Some \<lparr>tool = ''weather_pipeline'', city = Some c, args = None\<rparr>))
   \<and> (\<not> (any_in weather_words (lower t user)
           \<and> (\<exists>c. weather_city t user = Inr (Some c) \<and> c \<noteq> [])) \<longrightarrow>
        (any_in trivia_words (lower t user) \<longrightarrow> detect_tool t user = Inr (Some (direct ''trivia'' [])))
      \<and> (\<not> any_in trivia_words (lower t user) \<and> any_in joke_words (lower t user) \<longrightarrow>
           detect_tool t user = Inr (Some (direct ''random_joke'' [])))
      \<and> (\<not> any_in trivia_words (lower t user) \<and> \<not> any_in joke_words (lower t user)
           \<and> any_in dog_words (lower t user) \<longrightarrow>
           detect_tool t user = Inr (Some (direct ''random_dog'' [])))
      \<and> (\<not> any_in trivia_words (lower t user) \<and> \<not> any_in joke_words (lower t user)
           \<and> \<not> any_in dog_words (lower t user) \<and> any_in book_words (lower t user) \<longrightarrow>
           (\<exists>a. detect_tool t user = Inr (Some (direct ''book_recs'' a))))
      \<and> (\<not> any_in trivia_words (lower t user) \<and> \<not> any_in joke_words (lower t user)
           \<and> \<not> any_in dog_words (lower t user) \<and> \<not> any_in book_words (lower t user) \<longrightarrow>
           detect_tool t user = Inr None))"
proof -
  obtain w where w: "weather_city t user = Inr w"
    using weather_city_returns by blast
  obtain b where b: "book_topic t user = Inr b"
    using book_topic_returns by blast
  show ?thesis
    by (auto simp: detect_tool_def detect_rest_def Let_def w b split: option.splits)
qed

text \<open>
  The theorem at a text with a weather and a joke keyword and a city, and at one text
  for each of the other outcomes.
\<close>

theorem detect_tool_priority_witness:
  "any_in joke_words (lower ascii_tables ''Tell me a joke about the weather in Rome.'')
   \<and> detect_tool ascii_tables ''Tell me a joke about the weather in Rome.''
       = Inr (Some \<lparr>tool = ''weather_pipeline'', city = Some ''Rome'', args = None\<rparr>)
   \<and> detect_tool ascii_tables ''Quiz me'' = Inr (Some (direct ''trivia'' []))
   \<and> detect_tool ascii_tables ''something funny'' = Inr (Some (direct ''random_joke'' []))
   \<and> detect_tool ascii_tables ''show me a puppy'' = Inr (Some (direct ''random_dog'' []))
   \<and> (\<exists>a. detect_tool ascii_tables ''a good novel'' = Inr (Some (direct ''book_recs'' a)))
   \<and> detect_tool ascii_tables ''hello there'' = Inr None"
proof -
  have w: "any_in weather_words (lower ascii_tables ''Tell me a joke about the weather in Rome.'')
      \<and> weather_city ascii_tables ''Tell me a joke about the weather in Rome.'' = Inr (Some ''Rome'')
      \<and> ''Rome'' \<noteq> []"
    by code_simp
  have j: "any_in joke_words (lower ascii_tables ''Tell me a joke about the weather in Rome.'')"
    by code_simp
  have t: "\<not> any_in weather_words (lower ascii_tables ''Quiz me'')
      \<and> any_in trivia_words (lower ascii_tables ''Quiz me'')"
    by code_simp
  have f: "\<not> any_in weather_words (lower ascii_tables ''something funny'')
      \<and> \<not> any_in trivia_words (lower ascii_tables ''something funny'')
      \<and> any_in joke_words (lower ascii_tables ''something funny'')"
    by code_simp
  have d: "\<not> any_in weather_words (lower ascii_tables ''show me a puppy'')
      \<and> \<not> any_in trivia_words (lower ascii_tables ''show me a puppy'')
      \<and> \<not> any_in joke_words (lower ascii_tables ''show me a puppy'')
      \<and> any_in dog_words (lower ascii_tables ''show me a puppy'')"
    by code_simp
  have b: "\<not> any_in weather_words (lower ascii_tables ''a good novel'')
      \<and> \<not> any_in trivia_words (lower ascii_tables ''a good novel'')
      \<and> \<not> any_in joke_words (lower ascii_tables ''a good novel'')
      \<and> \<not> any_in dog_words (lower ascii_tables ''a good novel'')
      \<and> any_in book_words (lower ascii_tables ''a good novel'')"
    by code_simp
  have n: "\<not> any_in weather_words (lower ascii_tables ''hello there'')
      \<and> \<not> any_in trivia_words (lower ascii_tables ''hello there'')
      \<and> \<not> any_in joke_words (lower ascii_tables ''hello there'')
      \<and> \<not> any_in dog_words (lower ascii_tables ''hello there'')
      \<and> \<not> any_in book_words (lower ascii_tables ''hello there'')"
    by code_simp
  from detect_tool_priority [of ascii_tables "''Tell me a joke about the weather in Rome.''" "''Rome''"] w
  have r1: "detect_tool ascii_tables ''Tell me a joke about the weather in Rome.''
       = Inr (Some \<lparr>tool = ''weather_pipeline'', city = Some ''Rome'', args = None\<rparr>)"
    by blast
  from detect_tool_priority [of ascii_tables "''Quiz me''"] t
  have r2: "detect_tool ascii_tables ''Quiz me'' = Inr (Some (direct ''trivia'' []))"
    by blast
  from detect_tool_priority [of ascii_tables "''something funny''"] f
  have r3: "detect_tool ascii_tables ''something funny'' = Inr (Some (direct ''random_joke'' []))"
    by blast
  from detect_tool_priority [of ascii_tables "''show me a puppy''"] d
  have r4: "detect_tool ascii_tables ''show me a puppy'' = Inr (Some (direct ''random_dog'' []))"
    by blast
  from detect_tool_priority [of ascii_tables "''a good novel''"] b
  have r5: "\<exists>a. detect_tool ascii_tables ''a good novel'' = Inr (Some (direct ''book_recs'' a))"
    by blast
  from detect_tool_priority [of ascii_tables "''hello there''"] n
  have r6: "detect_tool ascii_tables ''hello there'' = Inr None"
    by blast
  from j r1 r2 r3 r4 r5 r6 show ?thesis
    by blast
qed

section \<open>What detection gives when a capture is missing\<close>

text \<open>
  Claim C5 says that a text whose keywords match a category always gives a tool call,
  with a fallback argument when the capture is missing. For the weather category there
  is no fallback city: \<open>what is the weather\<close> matches a weather keyword, captures no
  city, matches no other category, and detection returns nothing.
\<close>

theorem no_fallback_city_counterexample:
  "any_in weather_words (lower ascii_tables ''what is the weather'')
   \<and> detect_tool ascii_tables ''what is the weather'' = Inr None"
  by code_simp

text \<open>
  Claim C5, amended. \<open>detect_tool\<close> raises on no input string: it always returns, a tool
  call or nothing (\<open>m.group(1)\<close>, which raises on a failed search, is reached only
  after a successful one). A text in which a keyword of trivia, joke, dog image or book
  recommendation occurs always gives a tool call; when the book category is the one
  chosen and its pattern captures nothing, the topic is the fallback \<open>fiction\<close>. A text
  in which only weather keywords occur gives a tool call when a non-empty city is
  captured and nothing otherwise. This holds for whatever the interpreter's tables make
  of the text.
\<close>

theorem detect_tool_fallbacks:
  "(\<exists>d. detect_tool t user = Inr d)
   \<and> (any_in trivia_words (lower t user) \<or> any_in joke_words (lower t user)
      \<or> any_in dog_words (lower t user) \<or> any_in book_words (lower t user) \<longrightarrow>
      (\<exists>d. detect_tool t user = Inr (Some d)))
   \<and> (\<not> (any_in weather_words (lower t user)
          \<and> (\<exists>c. weather_city t user = Inr (Some c) \<and> c \<noteq> []))
      \<and> \<not> any_in trivia_words (lower t user) \<and> \<not> any_in joke_words (lower t user)
      \<and> \<not> any_in dog_words (lower t user) \<and> any_in book_words (lower t user)
      \<and> re_search t [''about'', ''on'', ''topic'', ''genre'', ''like''] ''?.,'' None (chars user)
          = None \<longrightarrow>
      detect_tool t user
        = Inr (Some (direct ''book_recs'' [(''topic'', JStr ''fiction''), (''limit'', JInt 3)])))
   \<and> (any_in weather_words (lower t user)
      \<and> \<not> any_in trivia_words (lower t user) \<and> \<not> any_in joke_words (lower t user)
      \<and> \<not> any_in dog_words (lower t user) \<and> \<not> any_in book_words (lower t user) \<longrightarrow>
      detect_tool t user
        = (case weather_city t user of
             Inl e \<Rightarrow> Inl e
           | Inr None \<Rightarrow> Inr None
           | Inr (Some c) \<Rightarrow>
               if c = [] then Inr None
               else Inr (Some \<lparr>tool = ''weather_pipeline'', city = Some c, args = None\<rparr>)))"
proof -
  obtain w where w: "weather_city t user = Inr w"
    using weather_city_returns by blast
  obtain b where b: "book_topic t user = Inr b"
    using book_topic_returns by blast
  have fiction: "re_search t [''about'', ''on'', ''topic'', ''genre'', ''like''] ''?.,'' None (chars user)
      = None \<Longrightarrow> b = ''fiction''"
    using b by (simp add: book_topic_def)
  show ?thesis
    using fiction
    by (auto simp: detect_tool_def detect_rest_def Let_def w b split: option.splits)
qed

text \<open>
  The theorem at a book request without a topic, at a weather request without a city
  and at one with a city.
\<close>

theorem detect_tool_fallbacks_witness:
  "detect_tool ascii_tables ''recommend a novel''
     = Inr (Some (direct ''book_recs'' [(''topic'', JStr ''fiction''), (''limit'', JInt 3)]))
   \<and> weather_city ascii_tables ''what is the weather'' = Inr None
   \<and> detect_tool ascii_tables ''what is the weather'' = Inr None
   \<and> detect_tool ascii_tables ''weather in Oslo''
     = Inr (Some \<lparr>tool = ''weather_pipeline'', city = Some ''Oslo'', args = None\<rparr>)"
proof -
  have b: "\<not> any_in weather_words (lower ascii_tables ''recommend a novel'')
      \<and> \<not> any_in trivia_words (lower ascii_tables ''recommend a novel'')
      \<and> \<not> any_in joke_words (lower ascii_tables ''recommend a novel'')
      \<and> \<not> any_in dog_words (lower ascii_tables ''recommend a novel'')
      \<and> any_in book_words (lower ascii_tables ''recommend a novel'')
      \<and> re_search ascii_tables [''about'', ''on'', ''topic'', ''genre'', ''like''] ''?.,'' None
            (chars ''recommend a novel'')
          = None"
    by code_simp
  have w: "any_in weather_words (lower ascii_tables ''what is the weather'')
      \<and> \<not> any_in trivia_words (lower ascii_tables ''what is the weather'')
      \<and> \<not> any_in joke_words (lower ascii_tables ''what is the weather'')
      \<and> \<not> any_in dog_words (lower ascii_tables ''what is the weather'')
      \<and> \<not> any_in book_words (lower ascii_tables ''what is the weather'')"
    by code_simp
  have wc: "weather_city ascii_tables ''what is the weather'' = Inr None"
    by code_simp
  have o: "any_in weather_words (lower ascii_tables ''weather in Oslo'')
      \<and> \<not> any_in trivia_words (lower ascii_tables ''weather in Oslo'')
      \<and> \<not> any_in joke_words (lower ascii_tables ''weather in Oslo'')
      \<and> \<not> any_in dog_words (lower ascii_tables ''weather in Oslo'')
      \<and> \<not> any_in book_words (lower ascii_tables ''weather in Oslo'')"
    by code_simp
  have oc: "weather_city ascii_tables ''weather in Oslo'' = Inr (Some ''Oslo'')"
    by code_simp
  from detect_tool_fallbacks [of ascii_tables "''recommend a novel''"] b
  have r1: "detect_tool ascii_tables ''recommend a novel''
     = Inr (Some (direct ''book_recs'' [(''topic'', JStr ''fiction''), (''limit'', JInt 3)]))"
    by blast
  from detect_tool_fallbacks [of ascii_tables "''what is the weather''"] w wc
  have r2: "detect_tool ascii_tables ''what is the weather'' = Inr None"
    by simp
  from detect_tool_fallbacks [of ascii_tables "''weather in Oslo''"] o oc
  have r3: "detect_tool ascii_tables ''weather in Oslo''
     = Inr (Some \<lparr>tool = ''weather_pipeline'', city = Some ''Oslo'', args = None\<rparr>)"
    by simp
  from r1 wc r2 r3 show ?thesis
    by blast
qed

section \<open>A failed request inside a tool\<close>

text \<open>
  \<open>city_to_coords\<close> has a handler: a fault of its request comes back as the mapping
  \<open>{error: <message>}\<close>.
\<close>

lemma city_to_coords_degrades:
  "is_Exception e \<Longrightarrow> city_to_coords (\<lambda>url params. Inl e) c = Inr (JObj [(''error'', JStr (msg e))])"
  by (simp add: city_to_coords_def city_to_coords_try_def fetch_json_def)

text \<open>
  \<open>get_weather\<close>, \<open>weather_summary\<close> and \<open>random_joke\<close> have none: whatever their request
  raises, they raise.
\<close>

lemma weather_summary_propagates:
  "weather_summary b (\<lambda>url params. Inl e) latitude longitude = Inl e"
  by (simp add: weather_summary_def get_weather_def fetch_json_def)

lemma random_joke_propagates:
  "random_joke (\<lambda>url params. Inl e) = Inl e"
  by (simp add: random_joke_def fetch_json_def)

text \<open>
  Claim C3 says that every tool whose outbound request fails returns a default result
  instead of raising, and that \<open>weather_summary\<close> always returns the weather mapping or
  an \<open>{error}\<close> mapping. Without a network, \<open>weather_summary(48.85, 2.35)\<close> and
  \<open>random_joke()\<close> end in the exception of the request, while \<open>city_to_coords\<close> returns
  its \<open>{error}\<close> mapping.
\<close>

theorem weather_summary_without_network:
  "weather_summary some_builtins no_network 48.85 2.35
     = Inl (Exn OtherException ''Connection refused'')
   \<and> random_joke no_network = Inl (Exn OtherException ''Connection refused'')
   \<and> city_to_coords no_network ''Paris'' = Inr (JObj [(''error'', JStr ''Connection refused'')])"
  by (simp add: weather_summary_def get_weather_def random_joke_def city_to_coords_def
      city_to_coords_try_def fetch_json_def no_network_def is_Exception_def)

end
